theory Spec2Isabelle
  imports Main
begin

section \<open>The searchPeriod command of jgclark.SearchExtensions\<close>

text \<open>
  A shallow embedding of \<^verbatim>\<open>searchPeriod\<close>
  (src/jgclark.SearchExtensions/src/saveSearchPeriod.js, lines 61-272).

  The function is glue code around the editor host, so the embedding makes its effects
  explicit. Every call that is visible outside the function (a dialog, a log line, a
  call of the search executor, a note write) is recorded, in order, as an event of a
  trace. The helpers and host calls that are imported from other modules are the
  fields of an environment record: the function is verified for every environment.
  A JavaScript string is a \<^typ>\<open>string\<close>; the date arguments and labels are ASCII.
\<close>

subsection \<open>Values\<close>

text \<open>What a \<^verbatim>\<open>throw\<close> or a rejected promise carries: an Error object with its
  message, or null/undefined (\<^verbatim>\<open>Promise.reject()\<close>).\<close>

datatype thrown = ErrorObject string | Nullish

text \<open>How a block of statements completes: normally with a value, by the
  \<^verbatim>\<open>return\<close> statement of searchPeriod, or by a throw.\<close>

datatype 'a completion = Normal 'a | Returned | Threw thrown

text \<open>How the promise returned by the async function settles.\<close>

datatype settled = Resolved | Rejected thrown

datatype jsdate = JSDate int

record searchConfig =
  headingLevel :: nat
  folderToStore :: string
  autoSave :: bool
  defaultSearchTerms :: "string list"
  searchHeading :: string
  foldersToExclude :: "string list"

text \<open>Modelled from the spec: the type of a validated search term is declared in
  searchHelpers, which is not among the sources; section 3 of the specification gives
  its fields.\<close>

record typedSearchTerm =
  termText :: string
  mustExist :: bool
  mustBeExcluded :: bool

text \<open>Modelled from the spec: the type resultOutputTypeV3 is declared in searchHelpers;
  searchPeriod reads \<^verbatim>\<open>resultCount\<close> and \<^verbatim>\<open>searchTermsRepArr\<close>.\<close>

record resultSet =
  resultCount :: nat
  searchTermsRepArr :: "string list"
  resultNoteAndLineArr :: "(string \<times> string) list"

text \<open>Modelled from the spec: a note, as far as the \<^verbatim>\<open>current\<close> destination needs it
  (section 4.5): a sequence of heading blocks, each a heading with its level and body.\<close>

record headingBlock =
  blockHeading :: string
  blockLevel :: nat
  blockBody :: string

record TNote =
  filename :: "string option"
  blocks :: "headingBlock list"

record args =
  searchTermsArg :: "string option"
  fromDateArg :: "string option"
  toDateArg :: "string option"
  paraTypeFilterArg :: "string option"
  destinationArg :: "string option"

subsection \<open>Events and the world\<close>

datatype event =
    GetSearchSettings
  | GetPeriodStartEndDates string bool
  | GetInput string string string string
  | ValidateAndTypeSearchTerms string bool
  | Clo "string list" string
  | ShowLoading bool "string option"
  | OnAsyncThread
  | OnMainThread
  | RunSearchesV2 "typedSearchTerm list" "string list" "string list" "string list"
      searchConfig "string list" string string
  | ChooseOption string "(string \<times> string) list" string
  | ShowMessage string
  | CreateFormattedResultLines resultSet searchConfig
  | ReplaceSection TNote string string nat string
  | WriteSearchResultsToNote resultSet string string searchConfig string
  | OpenNoteByFilename string bool nat nat bool
  | LogDebug string
  | LogInfo string
  | LogError string

record world =
  trace :: "event list"
  Editor_note :: "TNote option"

definition startWorld :: "TNote option \<Rightarrow> world" where
  "startWorld n = \<lparr>trace = [], Editor_note = n\<rparr>"

text \<open>The imported helpers and host calls. A call that is awaited, and the date library,
  may throw: the environment gives its outcome, \<open>Inl\<close> for a throw. The string helpers, the
  formatter, the logging functions and \<^verbatim>\<open>CommandBar.showLoading\<close> are taken to return.
  runSearchesV2 returns a promise that is awaited later (line 195): the field gives how
  that promise settles. The two fields for the date library stand for the expressions
  \<^verbatim>\<open>moment.now().startOf('day').subtract(n, 'days').toJSDate()\<close> of line 87 and
  \<^verbatim>\<open>moment.now().startOf('day').toJSDate()\<close> of line 97.\<close>

record env =
  getSearchSettings :: "thrown + searchConfig"
  matches_RE_ISO_DATE :: "string \<Rightarrow> bool"
  matches_RE_YYYYMMDD_DATE :: "string \<Rightarrow> bool"
  unhyphenateString :: "string \<Rightarrow> string"
  unhyphenatedDate :: "jsdate \<Rightarrow> string"
  momentStartOfDayMinusDays :: "nat \<Rightarrow> thrown + jsdate"
  momentStartOfDay :: "thrown + jsdate"
  getPeriodStartEndDates ::
    "string \<Rightarrow> bool \<Rightarrow> thrown + (jsdate option \<times> jsdate option \<times> string \<times> string \<times> string)"
  getInput :: "string \<Rightarrow> string \<Rightarrow> string \<Rightarrow> string \<Rightarrow> thrown + (bool + string)"
  validateAndTypeSearchTerms :: "string \<Rightarrow> bool \<Rightarrow> thrown + typedSearchTerm list option"
  onAsyncThread :: "thrown + unit"
  onMainThread :: "thrown + unit"
  runSearchesV2 :: "typedSearchTerm list \<Rightarrow> string list \<Rightarrow> string list \<Rightarrow> string list \<Rightarrow>
      searchConfig \<Rightarrow> string list \<Rightarrow> string \<Rightarrow> string \<Rightarrow> thrown + resultSet"
  chooseOption :: "string \<Rightarrow> (string \<times> string) list \<Rightarrow> string \<Rightarrow> thrown + string"
  showMessage :: "string \<Rightarrow> thrown + unit"
  getSearchTermsRep :: "typedSearchTerm list \<Rightarrow> string"
  createFormattedResultLines :: "resultSet \<Rightarrow> searchConfig \<Rightarrow> string list"
  createRunPluginCallbackUrl :: "string \<Rightarrow> string \<Rightarrow> string list \<Rightarrow> string"
  writeSearchResultsToNote ::
    "resultSet \<Rightarrow> string \<Rightarrow> string \<Rightarrow> searchConfig \<Rightarrow> string \<Rightarrow> thrown + string"
  noteOpenInEditor :: "string \<Rightarrow> bool"
  openNoteByFilename :: "string \<Rightarrow> bool \<Rightarrow> nat \<Rightarrow> nat \<Rightarrow> bool \<Rightarrow> thrown + unit"

subsection \<open>Sequencing\<close>

type_synonym 'a prog = "world \<Rightarrow> 'a completion \<times> world"

definition ret :: "'a \<Rightarrow> 'a prog" where
  "ret x = (\<lambda>w. (Normal x, w))"

definition returnEarly :: "'a prog" where
  "returnEarly = (\<lambda>w. (Returned, w))"

definition andThen :: "'a prog \<Rightarrow> ('a \<Rightarrow> 'b prog) \<Rightarrow> 'b prog" where
  "andThen m f = (\<lambda>w. case m w of
      (Normal x, w') \<Rightarrow> f x w'
    | (Returned, w') \<Rightarrow> (Returned, w')
    | (Threw e, w') \<Rightarrow> (Threw e, w'))"

definition emit :: "event \<Rightarrow> unit prog" where
  "emit ev = (\<lambda>w. (Normal (), w\<lparr>trace := trace w @ [ev]\<rparr>))"

definition outcome :: "thrown + 'a \<Rightarrow> 'a prog" where
  "outcome r = (\<lambda>w. case r of Inl e \<Rightarrow> (Threw e, w) | Inr x \<Rightarrow> (Normal x, w))"

text \<open>A recorded call: the event is appended when the call is made, then the call
  returns or throws.\<close>

definition call :: "event \<Rightarrow> thrown + 'a \<Rightarrow> 'a prog" where
  "call ev r = andThen (emit ev) (\<lambda>_. outcome r)"

subsection \<open>String operations of JavaScript\<close>

text \<open>\<^verbatim>\<open>a > b\<close> on strings: lexicographic, by character code.\<close>

fun js_string_gt :: "string \<Rightarrow> string \<Rightarrow> bool" where
  "js_string_gt [] t = False"
| "js_string_gt (a # s) [] = True"
| "js_string_gt (a # s) (b # t) =
     (if a = b then js_string_gt s t else (of_char b :: nat) < of_char a)"

text \<open>\<^verbatim>\<open>xs.join(sep)\<close>\<close>

fun join :: "string \<Rightarrow> string list \<Rightarrow> string" where
  "join sep [] = []"
| "join sep [x] = x"
| "join sep (x # y # ys) = x @ sep @ join sep (y # ys)"

text \<open>\<^verbatim>\<open>s.split(c)\<close> for a one-character separator.\<close>

fun split :: "char \<Rightarrow> string \<Rightarrow> string list" where
  "split c [] = [[]]"
| "split c (x # xs) =
     (if x = c then [] # split c xs
      else (case split c xs of [] \<Rightarrow> [[x]] | y # ys \<Rightarrow> (x # y) # ys))"

text \<open>\<^verbatim>\<open>String(n)\<close> for a natural number.\<close>

fun digitsOf :: "nat \<Rightarrow> string" where
  "digitsOf n =
     (if n < 10 then [char_of (48 + n)] else digitsOf (n div 10) @ [char_of (48 + n mod 10)])"

declare digitsOf.simps [simp del]

definition stringOfBool :: "bool \<Rightarrow> string" where
  "stringOfBool b = (if b then ''true'' else ''false'')"

subsection \<open>Lines 69-120: settings and the period\<close>

record locals1 =
  config :: searchConfig
  headingMarker :: string
  calledNonInteractively :: bool
  fromDate :: "jsdate option"
  fromDateStr :: string
  toDate :: "jsdate option"
  toDateStr :: string
  periodString :: string
  periodAndPartStr :: string
  periodType :: string

text \<open>Parameters with a default value (lines 63-65).\<close>

definition fromDateArgOrDefault :: "args \<Rightarrow> string" where
  "fromDateArgOrDefault a = (case fromDateArg a of None \<Rightarrow> ''default'' | Some s \<Rightarrow> s)"

definition toDateArgOrDefault :: "args \<Rightarrow> string" where
  "toDateArgOrDefault a = (case toDateArg a of None \<Rightarrow> ''default'' | Some s \<Rightarrow> s)"

definition paraTypeFilterArgOrDefault :: "args \<Rightarrow> string" where
  "paraTypeFilterArgOrDefault a = (case paraTypeFilterArg a of None \<Rightarrow> '''' | Some s \<Rightarrow> s)"

text \<open>The conditional expression of lines 90-94 and 100-104.\<close>

definition dateArgToStr :: "env \<Rightarrow> string \<Rightarrow> string" where
  "dateArgToStr env d =
     (if matches_RE_ISO_DATE env d then unhyphenateString env d
      else if matches_RE_YYYYMMDD_DATE env d then d
      else ''error'')"

definition resolvePeriod :: "env \<Rightarrow> args \<Rightarrow> locals1 prog" where
  "resolvePeriod env a =
     andThen (call GetSearchSettings (getSearchSettings env)) (\<lambda>cfg.
       if searchTermsArg a \<noteq> None then
         andThen
           (if fromDateArgOrDefault a = ''default''
            then andThen (outcome (momentStartOfDayMinusDays env 91)) (\<lambda>d. ret (Some d, ''''))
            else ret (None, dateArgToStr env (fromDateArgOrDefault a))) (\<lambda>(fd, fds).
         andThen
           (if fromDateArgOrDefault a = ''default''
            then andThen (outcome (momentStartOfDay env)) (\<lambda>d. ret (Some d, ''''))
            else ret (None, dateArgToStr env (toDateArgOrDefault a))) (\<lambda>(td, tds).
         ret \<lparr>config = cfg,
              headingMarker = replicate (headingLevel cfg) (CHR ''#''),
              calledNonInteractively = True,
              fromDate = fd, fromDateStr = fds,
              toDate = td, toDateStr = tds,
              periodString = fds @ '' - '' @ tds,
              periodAndPartStr = fds @ '' - '' @ tds,
              periodType = ''''\<rparr>))
       else
         andThen (call (GetPeriodStartEndDates ''What period shall I search over?'' False)
                    (getPeriodStartEndDates env ''What period shall I search over?'' False))
           (\<lambda>(fd, td, ptype, pstr, ppstr).
              case (fd, td) of
                (Some f, Some t) \<Rightarrow>
                  ret \<lparr>config = cfg,
                       headingMarker = replicate (headingLevel cfg) (CHR ''#''),
                       calledNonInteractively = False,
                       fromDate = fd, fromDateStr = unhyphenatedDate env f,
                       toDate = td, toDateStr = unhyphenatedDate env t,
                       periodString = pstr,
                       periodAndPartStr = (if ppstr = '''' then pstr else ppstr),
                       periodType = ptype\<rparr>
              | _ \<Rightarrow>
                  andThen
                    (emit (LogError ''dates could not be parsed for requested time period''))
                    (\<lambda>_. returnEarly)))"

subsection \<open>Lines 121-145: the order of the dates, and the search terms\<close>

record locals2 = locals1 +
  termsToMatchStr :: string

definition orderAndTerms :: "env \<Rightarrow> args \<Rightarrow> locals1 \<Rightarrow> locals2 prog" where
  "orderAndTerms env a l =
     (if js_string_gt (fromDateStr l) (toDateStr l) then
        andThen
          (emit (LogError (''Stopping: fromDate '' @ fromDateStr l @ '' is after toDate ''
                            @ toDateStr l)))
          (\<lambda>_. returnEarly)
      else
        andThen
          (emit (LogDebug (''- time period for search: '' @ periodString l @ '' / ''
                            @ periodAndPartStr l))) (\<lambda>_.
        andThen
          (if calledNonInteractively l then
             andThen
               (emit (LogDebug (''- arg0 -> search term(s) [''
                  @ (case searchTermsArg a of None \<Rightarrow> '''' | Some s \<Rightarrow> s) @ '']'')))
               (\<lambda>_. ret (case searchTermsArg a of None \<Rightarrow> '''' | Some s \<Rightarrow> s))
           else
             andThen
               (call (GetInput
                        ''Enter search term(s) separated by spaces or commas. (You can use + term, -term and !term as well.)''
                        ''OK'' ''Search'' (join '', '' (defaultSearchTerms (config l))))
                     (getInput env
                        ''Enter search term(s) separated by spaces or commas. (You can use + term, -term and !term as well.)''
                        ''OK'' ''Search'' (join '', '' (defaultSearchTerms (config l)))))
               (\<lambda>newTerms. case newTerms of
                    Inl b \<Rightarrow>
                      andThen (emit (LogInfo ''User has cancelled operation.''))
                        (\<lambda>_. returnEarly)
                  | Inr s \<Rightarrow> ret s)) (\<lambda>terms.
        andThen
          (emit (LogDebug (''- called non-interactively? ''
                            @ stringOfBool (calledNonInteractively l)))) (\<lambda>_.
        ret (locals1.extend l (locals2.fields terms))))))"

subsection \<open>Lines 147-190: validation, the search call and the destination\<close>

text \<open>The call of line 166 is recorded when it is made; \<open>resultsProm\<close> holds the
  outcome of its promise until line 195 awaits it.\<close>

record locals3 = locals2 +
  validatedSearchTerms :: "typedSearchTerm list"
  paraTypesToInclude :: "string list"
  resultsProm :: "thrown + resultSet"
  destination :: string

text \<open>The options of the destination prompt (lines 178-186), each a label and a value.
  The pictographs of the labels are written as their UTF-8 bytes.\<close>

definition destinationOptions :: "string \<Rightarrow> string \<Rightarrow> (string \<times> string) list" where
  "destinationOptions period folder =
     [([CHR 0xF0, CHR 0x9F, CHR 0x96, CHR 0x8A] @ '' Create/update note ''
         @ [CHR 0x27] @ period @ [CHR 0x27] @ '' in folder '' @ [CHR 0x27]
         @ folder @ [CHR 0x27], ''newnote''),
      ([CHR 0xF0, CHR 0x9F, CHR 0x96, CHR 0x8A] @ '' Append/update your current note'',
         ''current''),
      ([CHR 0xF0, CHR 0x9F, CHR 0x93, CHR 0x8B] @ '' Write to plugin console log'', ''log''),
      ([CHR 0xE2, CHR 0x9D, CHR 0x8C] @ '' Cancel'', ''cancel'')]"

definition destinationQuestion :: "string \<Rightarrow> string" where
  "destinationQuestion period =
     ''Where should I save the search results for '' @ period @ ''?''"

definition invalidTermsMessage :: string where
  "invalidTermsMessage =
     ''These search terms aren't valid. Please see Plugin Console for details.''"

definition chooseDestination :: "env \<Rightarrow> locals2 \<Rightarrow> string prog" where
  "chooseDestination env l =
     (if calledNonInteractively l \<or> autoSave (config l) then ret ''newnote''
      else
        call (ChooseOption (destinationQuestion (periodString l))
                (destinationOptions (periodString l) (folderToStore (config l))) ''newnote'')
             (chooseOption env (destinationQuestion (periodString l))
                (destinationOptions (periodString l) (folderToStore (config l))) ''newnote''))"

definition validateSearchAndChoose :: "env \<Rightarrow> args \<Rightarrow> locals2 \<Rightarrow> locals3 prog" where
  "validateSearchAndChoose env a l =
     andThen (call (ValidateAndTypeSearchTerms (termsToMatchStr l) True)
                (validateAndTypeSearchTerms env (termsToMatchStr l) True)) (\<lambda>validated.
       case validated of
         None \<Rightarrow>
           andThen
             (call (ShowMessage invalidTermsMessage) (showMessage env invalidTermsMessage))
             (\<lambda>_. returnEarly)
       | Some vs \<Rightarrow>
           if length vs = 0 then
             andThen
               (call (ShowMessage invalidTermsMessage) (showMessage env invalidTermsMessage))
               (\<lambda>_. returnEarly)
           else
             let paraTypes =
                   (if paraTypeFilterArgOrDefault a \<noteq> ''''
                    then split (CHR '','') (paraTypeFilterArgOrDefault a) else [])
             in
             andThen (emit (Clo paraTypes ''arg3 -> para types: '')) (\<lambda>_.
             andThen (emit (ShowLoading True
                        (Some (''Searching over period '' @ periodString l @ '' ...'')))) (\<lambda>_.
             andThen (call OnAsyncThread (onAsyncThread env)) (\<lambda>_.
             andThen (emit (RunSearchesV2 vs [''calendar''] [] (foldersToExclude (config l))
                        (config l) paraTypes (fromDateStr l) (toDateStr l))) (\<lambda>_.
             andThen (call OnMainThread (onMainThread env)) (\<lambda>_.
             andThen (chooseDestination env l) (\<lambda>dest.
             andThen (emit (LogDebug (''destination = '' @ dest
                        @ '', started with destinationArg = ''
                        @ (case destinationArg a of None \<Rightarrow> ''undefined'' | Some s \<Rightarrow> s)))) (\<lambda>_.
             ret (locals2.extend l
                    (locals3.fields vs paraTypes
                       (runSearchesV2 env vs [''calendar''] [] (foldersToExclude (config l))
                          (config l) paraTypes (fromDateStr l) (toDateStr l))
                       dest))))))))))"

subsection \<open>Lines 195-207: the result of the search\<close>

record locals4 = locals3 +
  resultSetOf :: resultSet
  searchTermsRepStr :: string
  resultOutputLines :: "string list"

definition noResultsMessage :: "env \<Rightarrow> typedSearchTerm list \<Rightarrow> string" where
  "noResultsMessage env vs = ''No results found for search '' @ getSearchTermsRep env vs"

definition awaitAndFormat :: "env \<Rightarrow> locals3 \<Rightarrow> locals4 prog" where
  "awaitAndFormat env l =
     andThen (outcome (resultsProm l)) (\<lambda>rs.
     andThen (emit (ShowLoading False None)) (\<lambda>_.
       if resultCount rs = 0 then
         andThen (emit (LogDebug (noResultsMessage env (validatedSearchTerms l)))) (\<lambda>_.
         andThen (call (ShowMessage (noResultsMessage env (validatedSearchTerms l)))
                    (showMessage env (noResultsMessage env (validatedSearchTerms l)))) (\<lambda>_.
         returnEarly))
       else
         andThen (emit (CreateFormattedResultLines rs (config l))) (\<lambda>_.
         ret (locals3.extend l
                (locals4.fields rs (''['' @ join '' '' (searchTermsRepArr rs) @ '']'')
                   (createFormattedResultLines env rs (config l)))))))"

subsection \<open>Lines 209-268: the destinations\<close>

text \<open>Modelled from the spec: replaceSection of helpers/note is not among the sources.
  Section 4.5, in its words: for the exact heading matching the search-terms
  representation, replace its existing body if present, else append a new heading and body
  block at the end of the note. The heading looked for is the second argument; the new
  heading and its level are used for the block that is appended.\<close>

fun replaceBody :: "string \<Rightarrow> string \<Rightarrow> headingBlock list \<Rightarrow> headingBlock list" where
  "replaceBody h newContent [] = []"
| "replaceBody h newContent (b # bs) =
     (if blockHeading b = h then b\<lparr>blockBody := newContent\<rparr> # bs
      else b # replaceBody h newContent bs)"

definition replaceSection :: "TNote \<Rightarrow> string \<Rightarrow> string \<Rightarrow> nat \<Rightarrow> string \<Rightarrow> TNote" where
  "replaceSection n headingToRemove newHeading newLevel newContent =
     (if headingToRemove \<in> set (map blockHeading (blocks n))
      then n\<lparr>blocks := replaceBody headingToRemove newContent (blocks n)\<rparr>
      else n\<lparr>blocks := blocks n @
             [\<lparr>blockHeading = newHeading, blockLevel = newLevel, blockBody = newContent\<rparr>]\<rparr>)"

definition setEditorNote :: "TNote \<Rightarrow> unit prog" where
  "setEditorNote n = (\<lambda>w. (Normal (), w\<lparr>Editor_note := Some n\<rparr>))"

definition getEditorNote :: "TNote option prog" where
  "getEditorNote = (\<lambda>w. (Normal (Editor_note w), w))"

definition thisResultHeading :: "locals4 \<Rightarrow> string" where
  "thisResultHeading l =
     searchTermsRepStr l @ '' ('' @ digitsOf (resultCount (resultSetOf l)) @ '' results) for ''
       @ periodAndPartStr l"

definition routeCurrent :: "env \<Rightarrow> locals4 \<Rightarrow> unit prog" where
  "routeCurrent env l =
     andThen getEditorNote (\<lambda>currentNote.
       case currentNote of
         None \<Rightarrow> emit (LogError ''No note is open'')
       | Some n \<Rightarrow>
           andThen (emit (LogDebug (''Will write update/append to current note (''
                      @ (case filename n of None \<Rightarrow> '''' | Some f \<Rightarrow> f) @ '')''))) (\<lambda>_.
           andThen (emit (CreateFormattedResultLines (resultSetOf l) (config l))) (\<lambda>_.
           andThen (emit (ReplaceSection n (searchTermsRepStr l) (thisResultHeading l)
                      (headingLevel (config l))
                      (join [CHR 0x0A]
                         (createFormattedResultLines env (resultSetOf l) (config l))))) (\<lambda>_.
           setEditorNote (replaceSection n (searchTermsRepStr l) (thisResultHeading l)
                      (headingLevel (config l))
                      (join [CHR 0x0A]
                         (createFormattedResultLines env (resultSetOf l) (config l))))))))"

definition xCallbackLink :: "env \<Rightarrow> args \<Rightarrow> locals4 \<Rightarrow> string" where
  "xCallbackLink env a l =
     createRunPluginCallbackUrl env ''jgclark.SearchExtensions'' ''searchInPeriod''
       [termsToMatchStr l, fromDateStr l, toDateStr l, paraTypeFilterArgOrDefault a,
        (case destinationArg a of None \<Rightarrow> '''' | Some s \<Rightarrow> s)]"

definition routeNewnote :: "env \<Rightarrow> args \<Rightarrow> locals4 \<Rightarrow> unit prog" where
  "routeNewnote env a l =
     (let titleToMatch = termsToMatchStr l @ '' '' @ searchHeading (config l);
          requestedTitle = termsToMatchStr l @ '' '' @ searchHeading (config l) @ '' for ''
                             @ periodAndPartStr l
      in
      andThen (call (WriteSearchResultsToNote (resultSetOf l) requestedTitle titleToMatch
                       (config l) (xCallbackLink env a l))
                 (writeSearchResultsToNote env (resultSetOf l) requestedTitle titleToMatch
                       (config l) (xCallbackLink env a l))) (\<lambda>noteFilename.
      andThen (emit (LogDebug (''- filename to open in split: '' @ noteFilename))) (\<lambda>_.
        if noteOpenInEditor env noteFilename then
          emit (LogDebug (''- note '' @ noteFilename @ '' already open in an editor window''))
        else
          call (OpenNoteByFilename noteFilename False 0 0 True)
               (openNoteByFilename env noteFilename False 0 0 True))))"

definition routeLog :: "env \<Rightarrow> locals4 \<Rightarrow> unit prog" where
  "routeLog env l =
     andThen (emit (CreateFormattedResultLines (resultSetOf l) (config l))) (\<lambda>_.
     andThen (emit (LogInfo (headingMarker l @ '' '' @ thisResultHeading l))) (\<lambda>_.
     emit (LogInfo (join [CHR 0x0A]
             (createFormattedResultLines env (resultSetOf l) (config l))))))"

definition route :: "env \<Rightarrow> args \<Rightarrow> locals4 \<Rightarrow> unit prog" where
  "route env a l =
     (if destination l = ''current'' then routeCurrent env l
      else if destination l = ''newnote'' then routeNewnote env a l
      else if destination l = ''log'' then routeLog env l
      else if destination l = ''cancel'' then emit (LogInfo ''User cancelled command'')
      else emit (LogError ''No valid save location code supplied''))"

subsection \<open>Lines 68-272: the function\<close>

definition throughTerms :: "env \<Rightarrow> args \<Rightarrow> locals2 prog" where
  "throughTerms env a = andThen (resolvePeriod env a) (orderAndTerms env a)"

definition throughDestination :: "env \<Rightarrow> args \<Rightarrow> locals3 prog" where
  "throughDestination env a = andThen (throughTerms env a) (validateSearchAndChoose env a)"

definition throughFormat :: "env \<Rightarrow> args \<Rightarrow> locals4 prog" where
  "throughFormat env a = andThen (throughDestination env a) (awaitAndFormat env)"

definition searchPeriod_try :: "env \<Rightarrow> args \<Rightarrow> unit prog" where
  "searchPeriod_try env a = andThen (throughFormat env a) (route env a)"

text \<open>The text of the TypeError that reading \<^verbatim>\<open>err.message\<close> of null or undefined
  raises is the engine's.\<close>

definition messageOfNullish :: string where
  "messageOfNullish = ''undefined is not an object (evaluating 'err.message')''"

text \<open>\<^verbatim>\<open>try { ... } catch (err) { logError(pluginJson, err.message) }\<close>, and the promise
  of the async function.\<close>

definition searchPeriod :: "env \<Rightarrow> args \<Rightarrow> world \<Rightarrow> settled \<times> world" where
  "searchPeriod env a w =
     (case searchPeriod_try env a w of
        (Normal u, w') \<Rightarrow> (Resolved, w')
      | (Returned, w') \<Rightarrow> (Resolved, w')
      | (Threw (ErrorObject m), w') \<Rightarrow> (Resolved, w'\<lparr>trace := trace w' @ [LogError m]\<rparr>)
      | (Threw Nullish, w') \<Rightarrow> (Rejected (ErrorObject messageOfNullish), w'))"

subsection \<open>What a trace shows\<close>

fun isExecutorCall :: "event \<Rightarrow> bool" where
  "isExecutorCall (RunSearchesV2 vs nts fs ex cfg pts f t) = True"
| "isExecutorCall ev = False"

fun isDialog :: "event \<Rightarrow> bool" where
  "isDialog (ShowMessage m) = True"
| "isDialog ev = False"

fun isPrompt :: "event \<Rightarrow> bool" where
  "isPrompt (ChooseOption q os d) = True"
| "isPrompt ev = False"

fun isFormatterCall :: "event \<Rightarrow> bool" where
  "isFormatterCall (CreateFormattedResultLines rs cfg) = True"
| "isFormatterCall ev = False"

text \<open>A write to a note, or a logInfo line: the \<^verbatim>\<open>log\<close> destination writes its
  output with logInfo.\<close>

fun isWrite :: "event \<Rightarrow> bool" where
  "isWrite (ReplaceSection n h h' lv c) = True"
| "isWrite (WriteSearchResultsToNote rs t t' cfg x) = True"
| "isWrite (LogInfo m) = True"
| "isWrite ev = False"

text \<open>The from and to labels of the calls of the search executor.\<close>

fun executorDates :: "event list \<Rightarrow> (string \<times> string) list" where
  "executorDates [] = []"
| "executorDates (RunSearchesV2 vs nts fs ex cfg pts f t # evs) = (f, t) # executorDates evs"
| "executorDates (ev # evs) = executorDates evs"

text \<open>The titles requested of writeSearchResultsToNote.\<close>

fun requestedTitles :: "event list \<Rightarrow> string list" where
  "requestedTitles [] = []"
| "requestedTitles (WriteSearchResultsToNote rs t t' cfg x # evs) = t # requestedTitles evs"
| "requestedTitles (ev # evs) = requestedTitles evs"

fun normalValue :: "'a completion \<Rightarrow> 'a option" where
  "normalValue (Normal x) = Some x"
| "normalValue c = None"

subsection \<open>A concrete environment\<close>

text \<open>Modelled from the spec: the regular expressions RE_ISO_DATE and RE_YYYYMMDD_DATE and
  unhyphenateString are constants of helpers/dateTime, which is not among the sources.
  Section 6: the accepted date formats are YYYYMMDD and YYYY-MM-DD only. In a pattern,
  d stands for a digit.\<close>

definition isDigit :: "char \<Rightarrow> bool" where
  "isDigit c = (48 \<le> (of_char c :: nat) \<and> (of_char c :: nat) \<le> 57)"

fun matchesPattern :: "string \<Rightarrow> string \<Rightarrow> bool" where
  "matchesPattern [] [] = True"
| "matchesPattern (p # ps) (c # cs) =
     ((if p = CHR ''d'' then isDigit c else p = c) \<and> matchesPattern ps cs)"
| "matchesPattern ps cs = False"

definition removeHyphens :: "string \<Rightarrow> string" where
  "removeHyphens s = filter (\<lambda>c. c \<noteq> CHR ''-'') s"

text \<open>The date library as it is published: \<^verbatim>\<open>moment.now()\<close> is the current time as a
  number, and a number has no method \<^verbatim>\<open>startOf\<close>, so the expressions of lines 87 and
  97 throw a TypeError. Its text is the engine's.\<close>

definition messageOfStartOf :: string where
  "messageOfStartOf = ''moment.now().startOf is not a function''"

definition demoConfig :: searchConfig where
  "demoConfig = \<lparr>headingLevel = 2, folderToStore = ''Saved Searches'', autoSave = False,
     defaultSearchTerms = [''idea'', ''@review''], searchHeading = ''Search results'',
     foldersToExclude = [''Templates'']\<rparr>"

definition demoResults :: resultSet where
  "demoResults = \<lparr>resultCount = 2, searchTermsRepArr = [''urgent''],
     resultNoteAndLineArr = [(''20240105.md'', ''- urgent: call the bank''),
                             (''20240117.md'', ''- urgent: renew passport'')]\<rparr>"

definition demoEnv :: env where
  "demoEnv = \<lparr>
     getSearchSettings = Inr demoConfig,
     matches_RE_ISO_DATE = matchesPattern ''dddd-dd-dd'',
     matches_RE_YYYYMMDD_DATE = matchesPattern ''dddddddd'',
     unhyphenateString = removeHyphens,
     unhyphenatedDate = (\<lambda>d. if d = JSDate 0 then ''20240101'' else ''20240131''),
     momentStartOfDayMinusDays = (\<lambda>n. Inl (ErrorObject messageOfStartOf)),
     momentStartOfDay = Inl (ErrorObject messageOfStartOf),
     getPeriodStartEndDates =
       (\<lambda>q b. Inr (Some (JSDate 0), Some (JSDate 1), ''month'', ''Jan 2024'', [])),
     getInput = (\<lambda>q ok title dflt. Inr (Inr ''urgent'')),
     validateAndTypeSearchTerms =
       (\<lambda>s b. if s = ''+ , - ,'' then Inr (Some [])
              else Inr (Some [\<lparr>termText = s, mustExist = False, mustBeExcluded = False\<rparr>])),
     onAsyncThread = Inr (),
     onMainThread = Inr (),
     runSearchesV2 = (\<lambda>vs nts fs ex cfg pts f t. Inr demoResults),
     chooseOption = (\<lambda>q os d. Inr ''current''),
     showMessage = (\<lambda>m. Inr ()),
     getSearchTermsRep = (\<lambda>vs. ''['' @ join '' '' (map termText vs) @ '']''),
     createFormattedResultLines = (\<lambda>rs cfg. map snd (resultNoteAndLineArr rs)),
     createRunPluginCallbackUrl = (\<lambda>p c xs. ''noteplan://x-callback-url/runPlugin?pluginID=''
        @ p @ ''&command='' @ c @ ''&args='' @ join '','' xs),
     writeSearchResultsToNote = (\<lambda>rs t t' cfg x. Inr (''Saved Searches/'' @ t @ ''.md'')),
     noteOpenInEditor = (\<lambda>f. False),
     openNoteByFilename = (\<lambda>f a b c d. Inr ())\<rparr>"

text \<open>Variants: a search that finds nothing, a search whose promise rejects (with an
  Error object, with undefined), a validator that throws; and a note open in the editor.\<close>

definition noResultsEnv :: env where
  "noResultsEnv = demoEnv\<lparr>runSearchesV2 := (\<lambda>vs nts fs ex cfg pts f t.
      Inr \<lparr>resultCount = 0, searchTermsRepArr = [''urgent''], resultNoteAndLineArr = []\<rparr>)\<rparr>"

definition rejectingEnv :: env where
  "rejectingEnv = demoEnv\<lparr>runSearchesV2 := (\<lambda>vs nts fs ex cfg pts f t.
      Inl (ErrorObject ''search failed''))\<rparr>"

definition nullishEnv :: env where
  "nullishEnv = demoEnv\<lparr>runSearchesV2 := (\<lambda>vs nts fs ex cfg pts f t. Inl Nullish)\<rparr>"

definition demoNote :: TNote where
  "demoNote = \<lparr>filename = Some ''20240120.md'',
     blocks = [\<lparr>blockHeading = ''Tasks'', blockLevel = 2, blockBody = ''* buy milk''\<rparr>]\<rparr>"

definition validatorFailsEnv :: env where
  "validatorFailsEnv = demoEnv\<lparr>validateAndTypeSearchTerms :=
      (\<lambda>s b. Inl (ErrorObject ''validator failed''))\<rparr>"

definition callbackArgs :: "string \<Rightarrow> string option \<Rightarrow> string option \<Rightarrow> args" where
  "callbackArgs terms from to =
     \<lparr>searchTermsArg = Some terms, fromDateArg = from, toDateArg = to,
      paraTypeFilterArg = None, destinationArg = None\<rparr>"

definition interactiveArgs :: args where
  "interactiveArgs = \<lparr>searchTermsArg = None, fromDateArg = None, toDateArg = None,
      paraTypeFilterArg = None, destinationArg = None\<rparr>"

section \<open>Properties\<close>

lemmas prog_defs = andThen_def ret_def returnEarly_def emit_def outcome_def call_def


subsection \<open>Sequencing and projections\<close>

lemma andThenE:
  assumes "andThen m f w = (r, w2)"
  obtains (normal) x w1 where "m w = (Normal x, w1)" "f x w1 = (r, w2)"
        | (returned) "m w = (Returned, w2)" "r = Returned"
        | (threw) e where "m w = (Threw e, w2)" "r = Threw e"
  using assms by (auto simp: andThen_def split: prod.splits completion.splits)

lemma andThen_Normal:
  "m w = (Normal x, w1) \<Longrightarrow> andThen m f w = f x w1"
  by (simp add: andThen_def)

lemma executorDates_append [simp]:
  "executorDates (xs @ ys) = executorDates xs @ executorDates ys"
  by (induction xs rule: executorDates.induct) simp_all

lemma requestedTitles_append [simp]:
  "requestedTitles (xs @ ys) = requestedTitles xs @ requestedTitles ys"
  by (induction xs rule: requestedTitles.induct) simp_all

subsection \<open>The stages, one at a time\<close>

lemma resolvePeriod_Normal:
  assumes "resolvePeriod env a w = (Normal l, w')"
  shows "trace w' = trace w @ GetSearchSettings #
           (if searchTermsArg a \<noteq> None then []
            else [GetPeriodStartEndDates ''What period shall I search over?'' False])"
    and "Editor_note w' = Editor_note w"
    and "calledNonInteractively l = (searchTermsArg a \<noteq> None)"
    and "getSearchSettings env = Inr (config l)"
  using assms
  by (auto simp: resolvePeriod_def prog_defs
           split: if_splits sum.splits prod.splits option.splits completion.splits)

lemma resolvePeriod_any:
  assumes "resolvePeriod env a w = (r, w')"
  shows "filter isExecutorCall (trace w') = filter isExecutorCall (trace w)"
    and "filter isDialog (trace w') = filter isDialog (trace w)"
    and "filter isPrompt (trace w') = filter isPrompt (trace w)"
    and "executorDates (trace w') = executorDates (trace w)"
    and "requestedTitles (trace w') = requestedTitles (trace w)"
    and "Editor_note w' = Editor_note w"
  using assms
  by (auto simp: resolvePeriod_def prog_defs
           split: if_splits sum.splits prod.splits option.splits completion.splits)

lemma orderAndTerms_Normal:
  assumes "orderAndTerms env a l w = (Normal l2, w')"
  shows "\<not> js_string_gt (fromDateStr l) (toDateStr l)"
    and "filter isDialog (trace w') = filter isDialog (trace w)"
    and "filter isWrite (trace w') = filter isWrite (trace w)"
    and "filter isFormatterCall (trace w') = filter isFormatterCall (trace w)"
    and "locals1.truncate l2 = l"
  using assms
  by (auto simp: orderAndTerms_def prog_defs locals1.defs locals2.defs
           split: if_splits sum.splits prod.splits option.splits completion.splits)

lemma orderAndTerms_any:
  assumes "orderAndTerms env a l w = (r, w')"
  shows "filter isExecutorCall (trace w') = filter isExecutorCall (trace w)"
    and "filter isDialog (trace w') = filter isDialog (trace w)"
    and "filter isPrompt (trace w') = filter isPrompt (trace w)"
    and "executorDates (trace w') = executorDates (trace w)"
    and "requestedTitles (trace w') = requestedTitles (trace w)"
    and "Editor_note w' = Editor_note w"
  using assms
  by (auto simp: orderAndTerms_def prog_defs
           split: if_splits sum.splits prod.splits option.splits completion.splits)


lemma validateSearchAndChoose_any:
  assumes "validateSearchAndChoose env a l w = (r, w')"
  shows "executorDates (trace w') = executorDates (trace w) \<or>
         executorDates (trace w') = executorDates (trace w) @ [(fromDateStr l, toDateStr l)]"
    and "requestedTitles (trace w') = requestedTitles (trace w)"
    and "Editor_note w' = Editor_note w"
    and "filter isFormatterCall (trace w') = filter isFormatterCall (trace w)"
  using assms
  by (auto simp: validateSearchAndChoose_def chooseDestination_def prog_defs Let_def
           split: if_splits sum.splits prod.splits option.splits completion.splits)

lemma validateSearchAndChoose_Normal:
  assumes "validateSearchAndChoose env a l w = (Normal l3, w')"
  shows "trace w' = trace w @
           [ValidateAndTypeSearchTerms (termsToMatchStr l) True,
            Clo (paraTypesToInclude l3) ''arg3 -> para types: '',
            ShowLoading True (Some (''Searching over period '' @ periodString l @ '' ...'')),
            OnAsyncThread,
            RunSearchesV2 (validatedSearchTerms l3) [''calendar''] [] (foldersToExclude (config l))
              (config l) (paraTypesToInclude l3) (fromDateStr l) (toDateStr l),
            OnMainThread] @
           (if calledNonInteractively l \<or> autoSave (config l) then []
            else [ChooseOption (destinationQuestion (periodString l))
                    (destinationOptions (periodString l) (folderToStore (config l)))
                    ''newnote'']) @
           [LogDebug (''destination = '' @ destination l3 @ '', started with destinationArg = ''
              @ (case destinationArg a of None \<Rightarrow> ''undefined'' | Some s \<Rightarrow> s))]"
    and "Editor_note w' = Editor_note w"
    and "validateAndTypeSearchTerms env (termsToMatchStr l) True = Inr (Some (validatedSearchTerms l3))"
    and "validatedSearchTerms l3 \<noteq> []"
    and "resultsProm l3 = runSearchesV2 env (validatedSearchTerms l3) [''calendar''] []
           (foldersToExclude (config l)) (config l) (paraTypesToInclude l3)
           (fromDateStr l) (toDateStr l)"
    and "calledNonInteractively l \<or> autoSave (config l) \<Longrightarrow> destination l3 = ''newnote''"
    and "\<not> (calledNonInteractively l \<or> autoSave (config l)) \<Longrightarrow>
           chooseOption env (destinationQuestion (periodString l))
             (destinationOptions (periodString l) (folderToStore (config l))) ''newnote''
           = Inr (destination l3)"
    and "locals2.truncate l3 = l"
  using assms
  by (auto simp: validateSearchAndChoose_def chooseDestination_def prog_defs Let_def
                 locals1.defs locals2.defs locals3.defs
           split: if_splits sum.splits prod.splits option.splits completion.splits)


lemma awaitAndFormat_Normal:
  assumes "awaitAndFormat env l w = (Normal l4, w')"
  shows "trace w' = trace w @ [ShowLoading False None,
            CreateFormattedResultLines (resultSetOf l4) (config l)]"
    and "Editor_note w' = Editor_note w"
    and "resultsProm l = Inr (resultSetOf l4)"
    and "resultCount (resultSetOf l4) \<noteq> 0"
    and "searchTermsRepStr l4 = ''['' @ join '' '' (searchTermsRepArr (resultSetOf l4)) @ '']''"
    and "locals3.truncate l4 = l"
  using assms
  by (auto simp: awaitAndFormat_def prog_defs locals1.defs locals2.defs locals3.defs locals4.defs
           split: if_splits sum.splits prod.splits option.splits completion.splits)



subsection \<open>The stages composed\<close>

lemma andThen_NormalD:
  assumes "andThen m f w = (Normal y, w2)"
  shows "\<exists>x w1. m w = (Normal x, w1) \<and> f x w1 = (Normal y, w2)"
  using assms by (auto elim: andThenE)

lemma andThen_same:
  assumes "andThen m f w = (r, w')"
    and "\<And>r1 w1. m w = (r1, w1) \<Longrightarrow> g w1 = g w"
    and "\<And>x w1. m w = (Normal x, w1) \<Longrightarrow> f x w1 = (r, w') \<Longrightarrow> g w' = g w1"
  shows "g w' = g w"
  using assms(1)
proof (cases rule: andThenE)
  case (normal x w1)
  then show ?thesis using assms(2)[of "Normal x" w1] assms(3)[of x w1] by simp
next
  case returned
  then show ?thesis using assms(2) by simp
next
  case (threw e)
  then show ?thesis using assms(2) by simp
qed

lemma throughTerms_any:
  assumes "throughTerms env a w = (r, w')"
  shows "executorDates (trace w') = executorDates (trace w)"
    and "requestedTitles (trace w') = requestedTitles (trace w)"
    and "filter isExecutorCall (trace w') = filter isExecutorCall (trace w)"
    and "filter isPrompt (trace w') = filter isPrompt (trace w)"
    and "Editor_note w' = Editor_note w"
proof -
  note run = assms[unfolded throughTerms_def]
  show "executorDates (trace w') = executorDates (trace w)"
    by (rule andThen_same[where g = "\<lambda>w. executorDates (trace w)", OF run])
       (simp_all add: resolvePeriod_any(4) orderAndTerms_any(4))
  show "requestedTitles (trace w') = requestedTitles (trace w)"
    by (rule andThen_same[where g = "\<lambda>w. requestedTitles (trace w)", OF run])
       (simp_all add: resolvePeriod_any(5) orderAndTerms_any(5))
  show "filter isExecutorCall (trace w') = filter isExecutorCall (trace w)"
    by (rule andThen_same[where g = "\<lambda>w. filter isExecutorCall (trace w)", OF run])
       (simp_all add: resolvePeriod_any(1) orderAndTerms_any(1))
  show "filter isPrompt (trace w') = filter isPrompt (trace w)"
    by (rule andThen_same[where g = "\<lambda>w. filter isPrompt (trace w)", OF run])
       (simp_all add: resolvePeriod_any(3) orderAndTerms_any(3))
  show "Editor_note w' = Editor_note w"
    by (rule andThen_same[where g = Editor_note, OF run])
       (simp_all add: resolvePeriod_any(6) orderAndTerms_any(6))
qed

lemma throughTerms_Normal:
  assumes "throughTerms env a w = (Normal l2, w2)"
  shows "\<exists>l1 w1. resolvePeriod env a w = (Normal l1, w1)
           \<and> orderAndTerms env a l1 w1 = (Normal l2, w2)"
  using assms unfolding throughTerms_def by (rule andThen_NormalD)



lemma orderAndTerms_stops:
  assumes "js_string_gt (fromDateStr l) (toDateStr l)"
  shows "orderAndTerms env a l w =
      (Returned, w\<lparr>trace := trace w @
              [LogError (''Stopping: fromDate '' @ fromDateStr l @ '' is after toDate ''
                          @ toDateStr l)]\<rparr>)"
  using assms by (simp add: orderAndTerms_def prog_defs)

subsection \<open>Invocations that get through a stage\<close>

lemma throughTerms_Normal_quiet:
  assumes "throughTerms env a w = (Normal l2, w2)"
  shows "filter isDialog (trace w2) = filter isDialog (trace w)"
    and "filter isWrite (trace w2) = filter isWrite (trace w)"
    and "filter isFormatterCall (trace w2) = filter isFormatterCall (trace w)"
proof -
  obtain l1 w1 where p: "resolvePeriod env a w = (Normal l1, w1)"
    and o: "orderAndTerms env a l1 w1 = (Normal l2, w2)"
    using throughTerms_Normal[OF assms] by blast
  show "filter isDialog (trace w2) = filter isDialog (trace w)"
    using resolvePeriod_Normal(1)[OF p] orderAndTerms_Normal(2)[OF o] by simp
  show "filter isWrite (trace w2) = filter isWrite (trace w)"
    using resolvePeriod_Normal(1)[OF p] orderAndTerms_Normal(3)[OF o] by simp
  show "filter isFormatterCall (trace w2) = filter isFormatterCall (trace w)"
    using resolvePeriod_Normal(1)[OF p] orderAndTerms_Normal(4)[OF o] by simp
qed

lemma throughDestination_Normal:
  assumes "throughDestination env a w = (Normal l3, w3)"
  shows "\<exists>l2 w2. throughTerms env a w = (Normal l2, w2)
           \<and> validateSearchAndChoose env a l2 w2 = (Normal l3, w3)"
  using assms unfolding throughDestination_def by (rule andThen_NormalD)

lemma throughFormat_Normal:
  assumes "throughFormat env a w = (Normal l4, w4)"
  shows "\<exists>l3 w3. throughDestination env a w = (Normal l3, w3)
           \<and> awaitAndFormat env l3 w3 = (Normal l4, w4)"
  using assms unfolding throughFormat_def by (rule andThen_NormalD)

lemma throughDestination_Normal_quiet:
  assumes "throughDestination env a w = (Normal l3, w3)"
  shows "filter isDialog (trace w3) = filter isDialog (trace w)"
    and "filter isWrite (trace w3) = filter isWrite (trace w)"
    and "filter isFormatterCall (trace w3) = filter isFormatterCall (trace w)"
    and "Editor_note w3 = Editor_note w"
proof -
  obtain l2 w2 where t: "throughTerms env a w = (Normal l2, w2)"
    and v: "validateSearchAndChoose env a l2 w2 = (Normal l3, w3)"
    using throughDestination_Normal[OF assms] by blast
  note tr = validateSearchAndChoose_Normal(1)[OF v]
  show "filter isDialog (trace w3) = filter isDialog (trace w)"
    using throughTerms_Normal_quiet(1)[OF t] tr by simp
  show "filter isWrite (trace w3) = filter isWrite (trace w)"
    using throughTerms_Normal_quiet(2)[OF t] tr by simp
  show "filter isFormatterCall (trace w3) = filter isFormatterCall (trace w)"
    using throughTerms_Normal_quiet(3)[OF t] tr by simp
  show "Editor_note w3 = Editor_note w"
    using throughTerms_any(5)[OF t] validateSearchAndChoose_Normal(2)[OF v] by simp
qed





lemma throughFormat_Normal_quiet:
  assumes "throughFormat env a w = (Normal l4, w4)"
  shows "filter isDialog (trace w4) = filter isDialog (trace w)"
    and "filter isWrite (trace w4) = filter isWrite (trace w)"
    and "Editor_note w4 = Editor_note w"
proof -
  obtain l3 w3 where d: "throughDestination env a w = (Normal l3, w3)"
    and f: "awaitAndFormat env l3 w3 = (Normal l4, w4)"
    using throughFormat_Normal[OF assms] by blast
  note tr = awaitAndFormat_Normal(1)[OF f]
  show "filter isDialog (trace w4) = filter isDialog (trace w)"
    using throughDestination_Normal_quiet(1)[OF d] tr by simp
  show "filter isWrite (trace w4) = filter isWrite (trace w)"
    using throughDestination_Normal_quiet(2)[OF d] tr by simp
  show "Editor_note w4 = Editor_note w"
    using throughDestination_Normal_quiet(4)[OF d] awaitAndFormat_Normal(2)[OF f] by simp
qed

subsection \<open>Evaluation on concrete runs\<close>

lemma heading_written_is_not_the_heading_looked_for:
  "thisResultHeading l \<noteq> searchTermsRepStr l"
  by (simp add: thisResultHeading_def)


lemmas demo_defs = demoEnv_def demoConfig_def demoResults_def demoNote_def callbackArgs_def
  interactiveArgs_def startWorld_def isDigit_def removeHyphens_def

lemmas run_defs = searchPeriod_def searchPeriod_try_def throughFormat_def
  throughDestination_def throughTerms_def resolvePeriod_def orderAndTerms_def
  validateSearchAndChoose_def chooseDestination_def awaitAndFormat_def route_def
  routeCurrent_def routeNewnote_def routeLog_def xCallbackLink_def getEditorNote_def
  setEditorNote_def fromDateArgOrDefault_def toDateArgOrDefault_def
  paraTypeFilterArgOrDefault_def dateArgToStr_def stringOfBool_def Let_def
  destinationQuestion_def destinationOptions_def invalidTermsMessage_def
  noResultsMessage_def thisResultHeading_def replaceSection_def
  locals1.defs locals2.defs locals3.defs locals4.defs

section \<open>The claims\<close>

subsection \<open>The period (lines 84-124)\<close>

text \<open>
  C1. The claim: in the non-interactive mode the end date defaults to the current day
  exactly when toDateArg is the sentinel \<^verbatim>\<open>default\<close>, and is parsed from toDateArg
  otherwise, whatever fromDateArg is.

  The condition of line 96 tests fromDateArg, not toDateArg. With fromDateArg 20240101 and
  toDateArg left at the sentinel, no default is taken: toDate stays undefined and the
  sentinel is parsed as a date, which gives the label \<^verbatim>\<open>error\<close>. With fromDateArg
  left at its default and toDateArg 20240131, toDateArg is never parsed: the date
  expression of line 87 throws first, and line 96 would take the branch of the default.
\<close>

theorem end_date_default_is_decided_by_fromDateArg:
  "fst (resolvePeriod demoEnv (callbackArgs ''urgent'' None (Some ''20240131''))
        (startWorld None)) = Threw (ErrorObject messageOfStartOf)
   \<and> map_option (\<lambda>l. (toDate l, toDateStr l))
     (normalValue (fst (resolvePeriod demoEnv (callbackArgs ''urgent'' (Some ''20240101'') None)
        (startWorld None)))) = Some (None, ''error'')"
  by (simp add: resolvePeriod_def prog_defs demoEnv_def callbackArgs_def
        fromDateArgOrDefault_def toDateArgOrDefault_def dateArgToStr_def isDigit_def)

text \<open>
  C7. Whenever the resolved from label is greater than the resolved to label, as strings,
  searchPeriod logs the ordering error and returns: the promise resolves, the error is the
  last event, and the search executor has not been called.
\<close>

theorem from_after_to_stops_before_search:
  assumes "resolvePeriod env a (startWorld n) = (Normal l, w)"
      and "js_string_gt (fromDateStr l) (toDateStr l)"
  shows "searchPeriod env a (startWorld n) =
           (Resolved, w\<lparr>trace := trace w @
              [LogError (''Stopping: fromDate '' @ fromDateStr l @ '' is after toDate ''
                          @ toDateStr l)]\<rparr>)
         \<and> filter isExecutorCall (trace (snd (searchPeriod env a (startWorld n)))) = []"
proof -
  note ord = orderAndTerms_stops [OF assms(2), of env a w]
  have run: "searchPeriod_try env a (startWorld n) =
      (Returned, w\<lparr>trace := trace w @
              [LogError (''Stopping: fromDate '' @ fromDateStr l @ '' is after toDate ''
                          @ toDateStr l)]\<rparr>)"
    using assms(1) ord
    by (simp add: searchPeriod_try_def throughFormat_def throughDestination_def
          throughTerms_def andThen_def)
  have none: "filter isExecutorCall (trace w) = []"
    using resolvePeriod_any(1)[OF assms(1)] by (simp add: startWorld_def)
  show ?thesis using run none by (simp add: searchPeriod_def)
qed

theorem from_after_to_stops_before_search_witness:
  "searchPeriod demoEnv (callbackArgs ''urgent'' (Some ''2024-02-01'') (Some ''20240131''))
     (startWorld None) =
       (Resolved, \<lparr>trace = [GetSearchSettings,
            LogError ''Stopping: fromDate 20240201 is after toDate 20240131''],
          Editor_note = None\<rparr>)
   \<and> filter isExecutorCall (trace (snd (searchPeriod demoEnv
        (callbackArgs ''urgent'' (Some ''2024-02-01'') (Some ''20240131''))
        (startWorld None)))) = []"
proof -
  have period: "resolvePeriod demoEnv
      (callbackArgs ''urgent'' (Some ''2024-02-01'') (Some ''20240131'')) (startWorld None) =
      (Normal \<lparr>config = demoConfig, headingMarker = ''##'', calledNonInteractively = True,
          fromDate = None, fromDateStr = ''20240201'', toDate = None,
          toDateStr = ''20240131'', periodString = ''20240201 - 20240131'',
          periodAndPartStr = ''20240201 - 20240131'', periodType = []\<rparr>,
       \<lparr>trace = [GetSearchSettings], Editor_note = None\<rparr>)"
    by (simp add: resolvePeriod_def prog_defs demoEnv_def demoConfig_def callbackArgs_def
          fromDateArgOrDefault_def toDateArgOrDefault_def dateArgToStr_def isDigit_def
          removeHyphens_def startWorld_def numeral_2_eq_2)
  have later: "js_string_gt ''20240201'' ''20240131''"
    by simp
  from from_after_to_stops_before_search [OF period] later show ?thesis
    by simp
qed

text \<open>
  C10. The claim: in the non-interactive mode, when fromDateArg is the sentinel, both date
  labels keep the empty string, so that the search executor receives two empty labels and
  the period label of headings and titles is \<^verbatim>\<open> - \<close>.

  The branch of the sentinel (lines 86-87) assigns no label, but its date expression
  throws: the invocation ends in the catch block, which logs the TypeError. The search
  executor is never called and no period label or title is built, with the sentinel given
  and with the date arguments left out.
\<close>

theorem default_from_date_throws_before_search:
  "searchPeriod demoEnv (callbackArgs ''urgent'' (Some ''default'') (Some ''20240131''))
     (startWorld None) =
       (Resolved, \<lparr>trace = [GetSearchSettings, LogError messageOfStartOf],
          Editor_note = None\<rparr>)
   \<and> searchPeriod demoEnv (callbackArgs ''urgent'' None None) (startWorld None) =
       (Resolved, \<lparr>trace = [GetSearchSettings, LogError messageOfStartOf],
          Editor_note = None\<rparr>)
   \<and> executorDates (trace (snd (searchPeriod demoEnv
        (callbackArgs ''urgent'' (Some ''default'') (Some ''20240131'')) (startWorld None))))
      = []
   \<and> requestedTitles (trace (snd (searchPeriod demoEnv
        (callbackArgs ''urgent'' (Some ''default'') (Some ''20240131'')) (startWorld None))))
      = []"
  by (simp add: run_defs prog_defs demo_defs)

text \<open>
  C2. The claim: in the non-interactive mode a fromDateArg or toDateArg that is neither
  the sentinel nor a date in one of the two formats aborts the invocation, with a message
  dialog and no retry, before the search executor is called.

  Lines 94 and 104 turn such an argument into the label \<^verbatim>\<open>error\<close>, and no statement
  tests for it. With fromDateArg 20240101 and toDateArg \<^verbatim>\<open>tomorrow\<close> the comparison of
  line 121 is false and the search executor is called with the to label \<^verbatim>\<open>error\<close>.
  With fromDateArg \<^verbatim>\<open>yesterday\<close> and toDateArg left out, both labels are
  \<^verbatim>\<open>error\<close> (the sentinel of toDateArg is parsed as a date, see C1): the search
  executor is called with them and the note title is built from them.
\<close>

theorem bad_date_argument_reaches_search:
  "\<not> matches_RE_ISO_DATE demoEnv ''tomorrow''
   \<and> \<not> matches_RE_YYYYMMDD_DATE demoEnv ''tomorrow''
   \<and> executorDates (trace (snd (searchPeriod demoEnv
        (callbackArgs ''urgent'' (Some ''20240101'') (Some ''tomorrow'')) (startWorld None))))
      = [(''20240101'', ''error'')]
   \<and> \<not> matches_RE_ISO_DATE demoEnv ''yesterday''
   \<and> \<not> matches_RE_YYYYMMDD_DATE demoEnv ''yesterday''
   \<and> executorDates (trace (snd (searchPeriod demoEnv
        (callbackArgs ''urgent'' (Some ''yesterday'') None) (startWorld None))))
      = [(''error'', ''error'')]
   \<and> requestedTitles (trace (snd (searchPeriod demoEnv
        (callbackArgs ''urgent'' (Some ''yesterday'') None) (startWorld None))))
      = [''urgent Search results for error - error'']"
  by (simp add: run_defs prog_defs demo_defs)

subsection \<open>The search terms (lines 147-152)\<close>

text \<open>
  C5. Whenever the invocation gets as far as validating a term expression, and
  validateAndTypeSearchTerms yields null or an empty list for it, searchPeriod shows the
  message that the search terms are not valid, as its only dialog, and the search
  executor is not called. When the dialog call returns, the invocation ends there: the
  promise resolves and the dialog is the last event.
\<close>

theorem invalid_terms_stop_before_search:
  assumes "throughTerms env a (startWorld n) = (Normal l2, w2)"
      and "validateAndTypeSearchTerms env (termsToMatchStr l2) True = Inr v"
      and "v = None \<or> v = Some []"
  shows "filter isDialog (trace (snd (searchPeriod env a (startWorld n))))
           = [ShowMessage invalidTermsMessage]
       \<and> filter isExecutorCall (trace (snd (searchPeriod env a (startWorld n)))) = []
       \<and> (showMessage env invalidTermsMessage = Inr () \<longrightarrow>
            searchPeriod env a (startWorld n) =
              (Resolved, w2\<lparr>trace := trace w2 @
                 [ValidateAndTypeSearchTerms (termsToMatchStr l2) True,
                  ShowMessage invalidTermsMessage]\<rparr>))"
proof -
  define W where "W = w2\<lparr>trace := trace w2 @
                 [ValidateAndTypeSearchTerms (termsToMatchStr l2) True,
                  ShowMessage invalidTermsMessage]\<rparr>"
  have step: "validateSearchAndChoose env a l2 w2 =
      (case showMessage env invalidTermsMessage of
         Inl e \<Rightarrow> (Threw e, W) | Inr u \<Rightarrow> (Returned, W))"
    using assms(2,3)
    by (auto simp: validateSearchAndChoose_def prog_defs W_def split: sum.splits)
  have run: "searchPeriod_try env a (startWorld n) =
      (case showMessage env invalidTermsMessage of
         Inl e \<Rightarrow> (Threw e, W) | Inr u \<Rightarrow> (Returned, W))"
    using assms(1) step
    by (simp add: searchPeriod_try_def throughFormat_def throughDestination_def andThen_def
          split: sum.splits)
  have quiet: "filter isDialog (trace w2) = []" "filter isExecutorCall (trace w2) = []"
    using throughTerms_Normal_quiet(1)[OF assms(1)] throughTerms_any(3)[OF assms(1)]
    by (simp_all add: startWorld_def)
  show ?thesis
    using run quiet
    by (auto simp: searchPeriod_def W_def split: sum.splits thrown.splits)
qed

theorem invalid_terms_stop_before_search_witness:
  "filter isDialog (trace (snd (searchPeriod demoEnv
       (callbackArgs ''+ , - ,'' (Some ''20240101'') (Some ''20240131'')) (startWorld None))))
     = [ShowMessage invalidTermsMessage]
   \<and> filter isExecutorCall (trace (snd (searchPeriod demoEnv
       (callbackArgs ''+ , - ,'' (Some ''20240101'') (Some ''20240131'')) (startWorld None))))
     = []"
proof -
  let ?a = "callbackArgs ''+ , - ,'' (Some ''20240101'') (Some ''20240131'')"
  obtain l2 w2 where reached: "throughTerms demoEnv ?a (startWorld None) = (Normal l2, w2)"
    and terms: "termsToMatchStr l2 = ''+ , - ,''"
    by (simp add: run_defs prog_defs demo_defs)
  have none: "validateAndTypeSearchTerms demoEnv (termsToMatchStr l2) True = Inr (Some [])"
    by (simp add: terms demoEnv_def)
  from invalid_terms_stop_before_search [OF reached none] show ?thesis
    by simp
qed

subsection \<open>The destination (lines 171-190)\<close>



subsection \<open>The result of the search (lines 195-207)\<close>

text \<open>
  C6. Whenever the invocation gets through the destination step and the promise of the
  search resolves with a result set whose resultCount is 0, searchPeriod shows the message
  \<^verbatim>\<open>No results found for search ...\<close> as its only dialog; the formatter is never
  called, nothing is written to a note or to the log sink of the log destination, and the
  note in the editor is unchanged. When the dialog call returns, the promise resolves and
  the dialog is the last event.
\<close>

theorem no_results_is_reported_without_writes:
  assumes "throughDestination env a (startWorld n) = (Normal l3, w3)"
      and "resultsProm l3 = Inr rs"
      and "resultCount rs = 0"
  shows "filter isDialog (trace (snd (searchPeriod env a (startWorld n))))
           = [ShowMessage (noResultsMessage env (validatedSearchTerms l3))]
       \<and> filter isFormatterCall (trace (snd (searchPeriod env a (startWorld n)))) = []
       \<and> filter isWrite (trace (snd (searchPeriod env a (startWorld n)))) = []
       \<and> Editor_note (snd (searchPeriod env a (startWorld n))) = n
       \<and> (showMessage env (noResultsMessage env (validatedSearchTerms l3)) = Inr () \<longrightarrow>
            searchPeriod env a (startWorld n) =
              (Resolved, w3\<lparr>trace := trace w3 @
                 [ShowLoading False None,
                  LogDebug (noResultsMessage env (validatedSearchTerms l3)),
                  ShowMessage (noResultsMessage env (validatedSearchTerms l3))]\<rparr>))"
proof -
  define W where "W = w3\<lparr>trace := trace w3 @
                 [ShowLoading False None,
                  LogDebug (noResultsMessage env (validatedSearchTerms l3)),
                  ShowMessage (noResultsMessage env (validatedSearchTerms l3))]\<rparr>"
  have step: "awaitAndFormat env l3 w3 =
      (case showMessage env (noResultsMessage env (validatedSearchTerms l3)) of
         Inl e \<Rightarrow> (Threw e, W) | Inr u \<Rightarrow> (Returned, W))"
    using assms(2,3)
    by (auto simp: awaitAndFormat_def prog_defs W_def split: sum.splits)
  have run: "searchPeriod_try env a (startWorld n) =
      (case showMessage env (noResultsMessage env (validatedSearchTerms l3)) of
         Inl e \<Rightarrow> (Threw e, W) | Inr u \<Rightarrow> (Returned, W))"
    using assms(1) step
    by (simp add: searchPeriod_try_def throughFormat_def andThen_def split: sum.splits)
  have quiet: "filter isDialog (trace w3) = []" "filter isFormatterCall (trace w3) = []"
    "filter isWrite (trace w3) = []" "Editor_note w3 = n"
    using throughDestination_Normal_quiet[OF assms(1)]
    by (simp_all add: startWorld_def)
  show ?thesis
    using run quiet
    by (auto simp: searchPeriod_def W_def split: sum.splits thrown.splits)
qed

theorem no_results_is_reported_without_writes_witness:
  "filter isDialog (trace (snd (searchPeriod noResultsEnv interactiveArgs (startWorld None))))
     = [ShowMessage ''No results found for search [urgent]'']
   \<and> filter isFormatterCall
       (trace (snd (searchPeriod noResultsEnv interactiveArgs (startWorld None)))) = []
   \<and> filter isWrite
       (trace (snd (searchPeriod noResultsEnv interactiveArgs (startWorld None)))) = []
   \<and> fst (searchPeriod noResultsEnv interactiveArgs (startWorld None)) = Resolved"
proof -
  obtain l3 w3 where reached:
      "throughDestination noResultsEnv interactiveArgs (startWorld None) = (Normal l3, w3)"
    and prom: "resultsProm l3 =
      Inr \<lparr>resultCount = 0, searchTermsRepArr = [''urgent''], resultNoteAndLineArr = []\<rparr>"
    and vs: "validatedSearchTerms l3 =
      [\<lparr>termText = ''urgent'', mustExist = False, mustBeExcluded = False\<rparr>]"
    by (simp add: run_defs prog_defs demo_defs noResultsEnv_def)
  have shown: "showMessage noResultsEnv (noResultsMessage noResultsEnv (validatedSearchTerms l3))
      = Inr ()"
    by (simp add: noResultsEnv_def demoEnv_def)
  have msg: "noResultsMessage noResultsEnv (validatedSearchTerms l3)
      = ''No results found for search [urgent]''"
    by (simp add: vs noResultsMessage_def noResultsEnv_def demoEnv_def)
  have zero: "resultCount \<lparr>resultCount = 0, searchTermsRepArr = [''urgent''],
      resultNoteAndLineArr = []\<rparr> = 0"
    by simp
  note facts = no_results_is_reported_without_writes [OF reached prom zero, unfolded msg]
  have "fst (searchPeriod noResultsEnv interactiveArgs (startWorld None)) = Resolved"
    using facts shown[unfolded msg] by simp
  with facts show ?thesis
    by blast
qed

subsection \<open>The current destination (lines 210-222)\<close>

text \<open>
  C8. The claim: when the invocation is routed to the \<^verbatim>\<open>current\<close> destination and no
  note is open in the editor, the failure is reported by a logged error and a
  user-facing dialog, nothing is written, and nothing is thrown.

  The branch of line 214 only calls logError: in the run below, which is routed to
  \<^verbatim>\<open>current\<close> with no note open, the last event is the logged error and the trace has
  no dialog.
\<close>

theorem no_open_note_shows_no_dialog_counterexample:
  "filter isDialog (trace (snd (searchPeriod demoEnv interactiveArgs (startWorld None)))) = []
   \<and> last (trace (snd (searchPeriod demoEnv interactiveArgs (startWorld None))))
       = LogError ''No note is open''"
  by (simp add: run_defs prog_defs demo_defs)

text \<open>
  C8, as amended. When the invocation is routed to the \<^verbatim>\<open>current\<close> destination and no
  note is open in the editor, the failure is reported by the logged error
  \<^verbatim>\<open>No note is open\<close> alone: it is the last event, no dialog is shown in the whole
  invocation, nothing is written, the editor still has no note, and the promise resolves.
\<close>

theorem no_open_note_is_logged_without_write:
  assumes "throughFormat env a (startWorld None) = (Normal l4, w4)"
      and "destination l4 = ''current''"
  shows "searchPeriod env a (startWorld None) =
           (Resolved, w4\<lparr>trace := trace w4 @ [LogError ''No note is open'']\<rparr>)
       \<and> filter isDialog (trace (snd (searchPeriod env a (startWorld None)))) = []
       \<and> filter isWrite (trace (snd (searchPeriod env a (startWorld None)))) = []
       \<and> Editor_note (snd (searchPeriod env a (startWorld None))) = None"
proof -
  have quiet: "filter isDialog (trace w4) = []" "filter isWrite (trace w4) = []"
    "Editor_note w4 = None"
    using throughFormat_Normal_quiet[OF assms(1)] by (simp_all add: startWorld_def)
  have "route env a l4 w4 = (Normal (), w4\<lparr>trace := trace w4 @ [LogError ''No note is open'']\<rparr>)"
    using assms(2) quiet(3)
    by (simp add: route_def routeCurrent_def getEditorNote_def prog_defs)
  then have "searchPeriod_try env a (startWorld None) =
      (Normal (), w4\<lparr>trace := trace w4 @ [LogError ''No note is open'']\<rparr>)"
    using assms(1) by (simp add: searchPeriod_try_def andThen_Normal)
  then show ?thesis
    using quiet by (simp add: searchPeriod_def)
qed

theorem no_open_note_is_logged_without_write_witness:
  "fst (searchPeriod demoEnv interactiveArgs (startWorld None)) = Resolved
   \<and> filter isWrite (trace (snd (searchPeriod demoEnv interactiveArgs (startWorld None)))) = []
   \<and> filter isDialog (trace (snd (searchPeriod demoEnv interactiveArgs (startWorld None)))) = []"
proof -
  obtain l4 w4 where reached:
      "throughFormat demoEnv interactiveArgs (startWorld None) = (Normal l4, w4)"
    and dest: "destination l4 = ''current''"
    by (simp add: run_defs prog_defs demo_defs)
  note facts = no_open_note_is_logged_without_write [OF reached dest]
  have "fst (searchPeriod demoEnv interactiveArgs (startWorld None)) = Resolved"
    using facts by simp
  with facts show ?thesis
    by blast
qed


subsection \<open>The catch block (lines 269-271)\<close>

text \<open>
  C9. The claim: every exception raised inside searchPeriod is caught at the top level,
  logged with full detail and converted to a generic user-facing message, and the promise
  never rejects.

  The catch block calls logError with \<^verbatim>\<open>err.message\<close> and nothing else. When the
  promise of the search rejects with an Error object, the last event is the logged
  message and no dialog is shown. When it rejects with undefined, reading
  \<^verbatim>\<open>err.message\<close> throws inside the catch block, and the promise of searchPeriod
  rejects.
\<close>

theorem caught_exception_shows_no_message_counterexample:
  "searchPeriod rejectingEnv interactiveArgs (startWorld None) =
     (Resolved, snd (searchPeriod rejectingEnv interactiveArgs (startWorld None)))
   \<and> last (trace (snd (searchPeriod rejectingEnv interactiveArgs (startWorld None))))
       = LogError ''search failed''
   \<and> filter isDialog (trace (snd (searchPeriod rejectingEnv interactiveArgs (startWorld None))))
       = []
   \<and> fst (searchPeriod nullishEnv interactiveArgs (startWorld None))
       = Rejected (ErrorObject messageOfNullish)"
  by (simp add: run_defs prog_defs demo_defs rejectingEnv_def nullishEnv_def)

text \<open>
  C9, as amended. Every exception that is an Error object and is raised inside the try
  block of searchPeriod is caught at the top level: its message is logged with logError as
  the last event and the promise resolves; the catch block shows no message to the user.
  In particular, when the promise of the search rejects with an Error object, the
  invocation ends with the logged message and has shown no dialog. The promise of
  searchPeriod can only reject when the value thrown is null or undefined.
\<close>

theorem exceptions_are_caught_and_logged:
  "(searchPeriod_try env a w = (Threw (ErrorObject m), w') \<longrightarrow>
      searchPeriod env a w = (Resolved, w'\<lparr>trace := trace w' @ [LogError m]\<rparr>))
   \<and> (throughDestination env a (startWorld n) = (Normal l3, w3)
        \<and> resultsProm l3 = Inl (ErrorObject m) \<longrightarrow>
      searchPeriod env a (startWorld n) =
        (Resolved, w3\<lparr>trace := trace w3 @ [LogError m]\<rparr>)
      \<and> filter isDialog (trace (snd (searchPeriod env a (startWorld n)))) = [])
   \<and> (fst (searchPeriod env a w) = Resolved
        \<or> (\<exists>w'. searchPeriod_try env a w = (Threw Nullish, w')))"
proof -
  have caught: "searchPeriod_try env a w = (Threw (ErrorObject m), w') \<longrightarrow>
      searchPeriod env a w = (Resolved, w'\<lparr>trace := trace w' @ [LogError m]\<rparr>)"
    by (simp add: searchPeriod_def)
  have rejected: "searchPeriod env a (startWorld n) =
        (Resolved, w3\<lparr>trace := trace w3 @ [LogError m]\<rparr>)
      \<and> filter isDialog (trace (snd (searchPeriod env a (startWorld n)))) = []"
    if reached: "throughDestination env a (startWorld n) = (Normal l3, w3)"
      and prom: "resultsProm l3 = Inl (ErrorObject m)"
  proof -
    have "awaitAndFormat env l3 w3 = (Threw (ErrorObject m), w3)"
      using prom by (simp add: awaitAndFormat_def prog_defs)
    with reached have run: "searchPeriod_try env a (startWorld n) = (Threw (ErrorObject m), w3)"
      by (simp add: searchPeriod_try_def throughFormat_def andThen_def)
    have quiet: "filter isDialog (trace w3) = []"
      using throughDestination_Normal_quiet(1)[OF reached] by (simp add: startWorld_def)
    show ?thesis
      using run quiet by (simp add: searchPeriod_def)
  qed
  have settles: "fst (searchPeriod env a w) = Resolved
        \<or> (\<exists>w'. searchPeriod_try env a w = (Threw Nullish, w'))"
    by (cases "searchPeriod_try env a w")
       (auto simp: searchPeriod_def split: completion.splits thrown.splits)
  from caught rejected settles show ?thesis
    by blast
qed

theorem exceptions_are_caught_and_logged_witness:
  "searchPeriod validatorFailsEnv interactiveArgs (startWorld None) =
     (Resolved, \<lparr>trace = [GetSearchSettings,
        GetPeriodStartEndDates ''What period shall I search over?'' False,
        LogDebug ''- time period for search: Jan 2024 / Jan 2024'',
        GetInput
          ''Enter search term(s) separated by spaces or commas. (You can use + term, -term and !term as well.)''
          ''OK'' ''Search'' ''idea, @review'',
        LogDebug ''- called non-interactively? false'',
        ValidateAndTypeSearchTerms ''urgent'' True,
        LogError ''validator failed''], Editor_note = None\<rparr>)
   \<and> fst (searchPeriod rejectingEnv interactiveArgs (startWorld None)) = Resolved
   \<and> filter isDialog (trace (snd (searchPeriod rejectingEnv interactiveArgs (startWorld None))))
       = []"
proof -
  have thrown: "searchPeriod_try validatorFailsEnv interactiveArgs (startWorld None) =
     (Threw (ErrorObject ''validator failed''), \<lparr>trace = [GetSearchSettings,
        GetPeriodStartEndDates ''What period shall I search over?'' False,
        LogDebug ''- time period for search: Jan 2024 / Jan 2024'',
        GetInput
          ''Enter search term(s) separated by spaces or commas. (You can use + term, -term and !term as well.)''
          ''OK'' ''Search'' ''idea, @review'',
        LogDebug ''- called non-interactively? false'',
        ValidateAndTypeSearchTerms ''urgent'' True], Editor_note = None\<rparr>)"
    by (simp add: run_defs prog_defs demo_defs validatorFailsEnv_def)
  obtain l3 w3 where reached:
      "throughDestination rejectingEnv interactiveArgs (startWorld None) = (Normal l3, w3)"
    and prom: "resultsProm l3 = Inl (ErrorObject ''search failed'')"
    by (simp add: run_defs prog_defs demo_defs rejectingEnv_def)
  note facts = exceptions_are_caught_and_logged [of validatorFailsEnv interactiveArgs "startWorld None"
      "''validator failed''" _ None l3 w3]
  have first: "searchPeriod validatorFailsEnv interactiveArgs (startWorld None) =
     (Resolved, \<lparr>trace = [GetSearchSettings,
        GetPeriodStartEndDates ''What period shall I search over?'' False,
        LogDebug ''- time period for search: Jan 2024 / Jan 2024'',
        GetInput
          ''Enter search term(s) separated by spaces or commas. (You can use + term, -term and !term as well.)''
          ''OK'' ''Search'' ''idea, @review'',
        LogDebug ''- called non-interactively? false'',
        ValidateAndTypeSearchTerms ''urgent'' True,
        LogError ''validator failed''], Editor_note = None\<rparr>)"
    using facts thrown by simp
  note facts2 = exceptions_are_caught_and_logged [of rejectingEnv interactiveArgs "startWorld None"
      "''search failed''" _ None l3 w3]
  have second: "searchPeriod rejectingEnv interactiveArgs (startWorld None) =
        (Resolved, w3\<lparr>trace := trace w3 @ [LogError ''search failed'']\<rparr>)
      \<and> filter isDialog (trace (snd (searchPeriod rejectingEnv interactiveArgs
            (startWorld None)))) = []"
    using facts2 reached prom by blast
  then have "fst (searchPeriod rejectingEnv interactiveArgs (startWorld None)) = Resolved"
    by simp
  with first second show ?thesis
    by blast
qed

end
